theory Spec2Isabelle
  imports Main
begin

section \<open>Strings of the contact-form backend\<close>

text \<open>
  The backend (\<open>src/backend/server.js\<close>) works on JavaScript strings. A string is
  modelled as a \<open>string\<close> (a list of \<open>char\<close>), one \<open>char\<close> per code unit;
  the model covers the code units 0 to 255. \<open>length\<close> is the \<open>.length\<close> of the source.
\<close>

definition code :: "char \<Rightarrow> nat" where
  "code c = of_char c"

text \<open>\<open>String.prototype.trim\<close> strips white space and line terminators: within the
  modelled code units these are tab, line feed, vertical tab, form feed, carriage return,
  space and the no-break space.\<close>

definition is_space :: "char \<Rightarrow> bool" where
  "is_space c = (code c \<in> {9, 10, 11, 12, 13, 32, 160})"

definition trim :: "string \<Rightarrow> string" where
  "trim s = rev (dropWhile is_space (rev (dropWhile is_space s)))"

text \<open>The class \<open>\w\<close> of a regular expression: letters, digits and the underscore.\<close>

definition is_word :: "char \<Rightarrow> bool" where
  "is_word c =
     (let n = code c in
      (65 \<le> n \<and> n \<le> 90) \<or> (97 \<le> n \<and> n \<le> 122) \<or> (48 \<le> n \<and> n \<le> 57) \<or> n = 95)"

definition is_alpha :: "char \<Rightarrow> bool" where
  "is_alpha c = (let n = code c in (65 \<le> n \<and> n \<le> 90) \<or> (97 \<le> n \<and> n \<le> 122))"

definition is_digit :: "char \<Rightarrow> bool" where
  "is_digit c = (let n = code c in 48 \<le> n \<and> n \<le> 57)"

text \<open>The line terminators that \<open>.\<close> does not match.\<close>

definition is_line_terminator :: "char \<Rightarrow> bool" where
  "is_line_terminator c = (let n = code c in n = 10 \<or> n = 13)"

text \<open>
  A regular expression with the flag \<open>i\<close> (and without \<open>u\<close>) compares characters
  after \<open>Canonicalize\<close>, which is \<open>toUpperCase\<close> on a single code unit: a to z and the
  accented small letters 0xE0 to 0xFE (the division sign 0xF7 apart) go to their capitals;
  every other modelled code unit stays distinct from all others.
\<close>

definition canonicalize :: "char \<Rightarrow> char" where
  "canonicalize c =
     (let n = code c in
      if (97 \<le> n \<and> n \<le> 122) \<or> (224 \<le> n \<and> n \<le> 254 \<and> n \<noteq> 247) then char_of (n - 32)
      else c)"

text \<open>\<open>ci_prefix p s\<close>: the literal pattern \<open>p\<close> matches at the start of \<open>s\<close>, ignoring case.\<close>

fun ci_prefix :: "string \<Rightarrow> string \<Rightarrow> bool" where
  "ci_prefix [] s = True"
| "ci_prefix (p # ps) [] = False"
| "ci_prefix (p # ps) (c # cs) = (canonicalize p = canonicalize c \<and> ci_prefix ps cs)"

section \<open>Input sanitization\<close>

text \<open>\<open>.replace(/<[^>]*>/g, '')\<close>: from left to right, a \<open><\<close> that has a \<open>>\<close>
  somewhere after it is removed together with everything up to the first such \<open>>\<close>;
  a \<open><\<close> with no \<open>>\<close> after it stays.\<close>

fun strip_tags :: "string \<Rightarrow> string" where
  "strip_tags [] = []"
| "strip_tags (c # cs) =
     (if c = CHR ''<'' \<and> CHR ''>'' \<in> set cs
      then strip_tags (drop (Suc (length (takeWhile (\<lambda>d. d \<noteq> CHR ''>'') cs))) cs)
      else c # strip_tags cs)"

text \<open>The character class of \<open>.replace(/[<>\"\'`;(){}]/g, '')\<close>.\<close>

definition dangerous :: "char \<Rightarrow> bool" where
  "dangerous c = (c \<in> set [CHR ''<'', CHR ''>'', CHR 0x22, CHR 0x27, CHR 0x60, CHR '';'',
     CHR ''('', CHR '')'', CHR ''{'', CHR ''}''])"

definition strip_dangerous :: "string \<Rightarrow> string" where
  "strip_dangerous s = filter (\<lambda>c. \<not> dangerous c) s"

text \<open>\<open>.replace(/p/gi, '')\<close> for a literal \<open>p\<close>: from left to right, every
  occurrence found is dropped and the scan goes on after it.\<close>

fun remove_ci :: "string \<Rightarrow> string \<Rightarrow> string" where
  "remove_ci p [] = []"
| "remove_ci p (c # cs) =
     (if p \<noteq> [] \<and> ci_prefix p (c # cs) then remove_ci p (drop (length p - 1) cs)
      else c # remove_ci p cs)"

text \<open>\<open>/on\w+=/i\<close> at the start of \<open>s\<close>: the letters \<open>on\<close>, the longest run of
  word characters, which must not be empty, and \<open>=\<close> right after it (a shorter run is
  followed by a word character, never by \<open>=\<close>). The result is the length of the match.\<close>

definition handler_match :: "string \<Rightarrow> nat option" where
  "handler_match s =
     (if ci_prefix ''on'' s then
        (let w = takeWhile is_word (drop 2 s); r = dropWhile is_word (drop 2 s) in
         if w \<noteq> [] \<and> r \<noteq> [] \<and> hd r = CHR ''='' then Some (length w + 3) else None)
      else None)"

fun remove_handlers :: "string \<Rightarrow> string" where
  "remove_handlers [] = []"
| "remove_handlers (c # cs) =
     (case handler_match (c # cs) of
        Some n \<Rightarrow> remove_handlers (drop (n - 1) cs)
      | None \<Rightarrow> c # remove_handlers cs)"

text \<open>\<open>sanitizeInput(str)\<close>. A field of the request body is absent (\<open>None\<close>) or a
  string; an absent or empty field is falsy and gives the empty string.\<close>

definition sanitizeInput :: "string option \<Rightarrow> string" where
  "sanitizeInput str =
     (case str of
        None \<Rightarrow> []
      | Some s \<Rightarrow>
          if s = [] then []
          else remove_ci ''data:'' (remove_handlers (remove_ci ''javascript:''
                 (strip_dangerous (strip_tags (take 1000 (trim s)))))))"

text \<open>What the amended idempotence statement speaks of: an occurrence of a literal
  pattern (ignoring case) or of an event-handler pattern somewhere in a string.\<close>

fun occurs_ci :: "string \<Rightarrow> string \<Rightarrow> bool" where
  "occurs_ci p [] = False"
| "occurs_ci p (c # cs) = ((p \<noteq> [] \<and> ci_prefix p (c # cs)) \<or> occurs_ci p cs)"

fun occurs_handler :: "string \<Rightarrow> bool" where
  "occurs_handler [] = False"
| "occurs_handler (c # cs) = (handler_match (c # cs) \<noteq> None \<or> occurs_handler cs)"

section \<open>Validation\<close>

text \<open>\<open>isValidEmail\<close>: the expression
  \<open>/^[a-zA-Z0-9._%+-]+@[a-zA-Z0-9.-]+\.[a-zA-Z]{2,}$/\<close> and at most 254 characters.
  Neither class holds \<open>@\<close>, so the local part is all there is before the first \<open>@\<close>;
  the last class holds no dot, so the dot of the expression is the last dot of the rest.\<close>

definition local_char :: "char \<Rightarrow> bool" where
  "local_char c = (is_alpha c \<or> is_digit c \<or> c \<in> set ''._%+-'')"

definition domain_char :: "char \<Rightarrow> bool" where
  "domain_char c = (is_alpha c \<or> is_digit c \<or> c \<in> set ''.-'')"

definition emailRegex :: "string \<Rightarrow> bool" where
  "emailRegex email =
     (let lp = takeWhile (\<lambda>c. c \<noteq> CHR ''@'') email;
          rest = drop (Suc (length lp)) email;
          tld = rev (takeWhile (\<lambda>c. c \<noteq> CHR ''.'') (rev rest));
          dom = take (length rest - Suc (length tld)) rest
      in CHR ''@'' \<in> set email \<and> lp \<noteq> [] \<and> list_all local_char lp
         \<and> CHR ''.'' \<in> set rest \<and> dom \<noteq> [] \<and> list_all domain_char dom
         \<and> 2 \<le> length tld \<and> list_all is_alpha tld)"

definition isValidEmail :: "string \<Rightarrow> bool" where
  "isValidEmail email = (emailRegex email \<and> length email \<le> 254)"

text \<open>The checks of the submission handler on the sanitized fields, in the order of the
  source; the first one that fails gives the reason of the 400 response.\<close>

definition required_error :: string where
  "required_error = ''Name, email, and message are required.''"

definition name_error :: string where
  "name_error = ''Name must be between 2 and 100 characters.''"

definition message_error :: string where
  "message_error = ''Message must be between 10 and 1000 characters.''"

definition email_error :: string where
  "email_error = ''Please provide a valid email address.''"

definition name_check :: "string \<Rightarrow> bool" where
  "name_check name = (\<not> (length name < 2 \<or> length name > 100))"

definition message_check :: "string \<Rightarrow> bool" where
  "message_check message = (\<not> (length message < 10 \<or> length message > 1000))"

definition validation :: "string \<Rightarrow> string \<Rightarrow> string \<Rightarrow> string option" where
  "validation name email message =
     (if name = [] \<or> email = [] \<or> message = [] then Some required_error
      else if \<not> name_check name then Some name_error
      else if \<not> message_check message then Some message_error
      else if \<not> isValidEmail email then Some email_error
      else None)"

section \<open>Spam detection\<close>

record spam_data =
  sd_name :: string
  sd_subject :: string
  sd_message :: string

definition spam_keywords :: "string list" where
  "spam_keywords = [''viagra'', ''casino'', ''lottery'', ''winner'', ''prize'', ''click here'',
     ''buy now'']"

text \<open>\<open>\b\<close> holds between two positions when exactly one of the characters around it
  is a word character; \<open>pw\<close> says whether the character before is one (no character,
  at either end of the input, counts as none).\<close>

definition word_boundary :: "bool \<Rightarrow> string \<Rightarrow> bool" where
  "word_boundary pw rest = (pw \<noteq> (case rest of [] \<Rightarrow> False | c # _ \<Rightarrow> is_word c))"

text \<open>\<open>/\b(viagra|casino|lottery|winner|prize|click here|buy now)\b/i\<close> matching
  at the start of \<open>s\<close>, the character before being a word character or not (\<open>pw\<close>).\<close>

definition keyword_at :: "bool \<Rightarrow> string \<Rightarrow> bool" where
  "keyword_at pw s =
     (word_boundary pw s \<and>
      list_ex (\<lambda>k. ci_prefix k s \<and> word_boundary (is_word (last k)) (drop (length k) s))
        spam_keywords)"

fun keyword_scan :: "bool \<Rightarrow> string \<Rightarrow> bool" where
  "keyword_scan pw [] = False"
| "keyword_scan pw (c # cs) = (keyword_at pw (c # cs) \<or> keyword_scan (is_word c) cs)"

text \<open>\<open>http[s]?:\/\/\<close> at the start of \<open>s\<close>, ignoring case: the length matched.\<close>

definition scheme_match :: "string \<Rightarrow> nat option" where
  "scheme_match s =
     (if ci_prefix ''https://'' s then Some 8
      else if ci_prefix ''http://'' s then Some 7
      else None)"

text \<open>\<open>/(http[s]?:\/\/){2,}/i\<close>: two scheme prefixes, the second right after the
  first.\<close>

definition schemes_at :: "string \<Rightarrow> bool" where
  "schemes_at s =
     (case scheme_match s of None \<Rightarrow> False | Some n \<Rightarrow> scheme_match (drop n s) \<noteq> None)"

fun schemes_scan :: "string \<Rightarrow> bool" where
  "schemes_scan [] = False"
| "schemes_scan (c # cs) = (schemes_at (c # cs) \<or> schemes_scan cs)"

text \<open>\<open>/(.)\1{10,}/i\<close>: a character other than a line terminator, followed by at
  least ten characters equal to it up to case.\<close>

fun repeat_scan :: "string \<Rightarrow> bool" where
  "repeat_scan [] = False"
| "repeat_scan (c # cs) =
     ((\<not> is_line_terminator c
        \<and> 10 \<le> length (takeWhile (\<lambda>d. canonicalize d = canonicalize c) cs))
      \<or> repeat_scan cs)"

definition content :: "spam_data \<Rightarrow> string" where
  "content data = sd_name data @ '' '' @ sd_subject data @ '' '' @ sd_message data"

definition isSpam :: "spam_data \<Rightarrow> bool" where
  "isSpam data =
     (keyword_scan False (content data) \<or> schemes_scan (content data)
      \<or> repeat_scan (content data))"

section \<open>The message store\<close>

text \<open>A field of a stored record that may be missing, \<open>null\<close> or a value.\<close>

datatype 'a field = Absent | Null | Value 'a

record message =
  msg_id :: int
  msg_name :: string
  msg_email :: string
  msg_subject :: string
  msg_message :: string
  msg_timestamp :: string
  msg_ip :: "string option"
  msg_read :: bool
  telegramSent :: bool
  telegramError :: "string field"
  telegramRetryAt :: "string field"

text \<open>
  The file \<open>data/messages.json\<close> is written by \<open>saveMessages\<close> only, which writes
  the array of records it is given. A state of the file is that array, or a file that
  cannot be read (\<open>readFileSync\<close> throws), or a text that is no JSON (\<open>JSON.parse\<close>
  throws). JSON of another shape, which the program never writes, is no state of the
  model.
\<close>

datatype file_state = Unreadable | Unparsable | Stored "message list"

definition readMessages :: "file_state \<Rightarrow> message list" where
  "readMessages f = (case f of Stored ms \<Rightarrow> ms | Unreadable \<Rightarrow> [] | Unparsable \<Rightarrow> [])"

text \<open>
  \<open>fs.writeFileSync\<close> writes the whole text, or it throws: before it has touched the
  file (the file cannot be opened for writing), or after it has emptied the file and
  written a part of the text at most, which is no JSON.
\<close>

datatype write_outcome = Written | Throws_intact | Throws_damaged

text \<open>\<open>saveMessages(messages)\<close> on the file \<open>f\<close>: \<open>Inr\<close> is the file written,
  \<open>Inl\<close> the exception, with the file it leaves behind.\<close>

definition saveMessages :: "write_outcome \<Rightarrow> file_state \<Rightarrow> message list \<Rightarrow> file_state + file_state" where
  "saveMessages wo f messages =
     (case wo of
        Written \<Rightarrow> Inr (Stored messages)
      | Throws_intact \<Rightarrow> Inl f
      | Throws_damaged \<Rightarrow> Inl Unparsable)"

text \<open>\<open>Array.prototype.findIndex\<close>, with \<open>None\<close> for -1.\<close>

fun findIndex :: "('a \<Rightarrow> bool) \<Rightarrow> 'a list \<Rightarrow> nat option" where
  "findIndex P [] = None"
| "findIndex P (x # xs) =
     (if P x then Some 0 else (case findIndex P xs of None \<Rightarrow> None | Some i \<Rightarrow> Some (Suc i)))"

text \<open>
  \<open>parseInt(req.params.id)\<close>: leading white space is skipped, then an optional sign,
  then an optional \<open>0x\<close> that turns the radix to 16, then the longest run of digits; no
  digit gives \<open>NaN\<close>, here \<open>None\<close>. An id and a parse are compared as integers, which
  is the comparison of the source for every id below \<open>2^53\<close> in absolute value.
\<close>

definition digit_value :: "char \<Rightarrow> nat" where
  "digit_value c =
     (let n = code c in
      if 48 \<le> n \<and> n \<le> 57 then n - 48
      else if 97 \<le> n \<and> n \<le> 102 then n - 87
      else if 65 \<le> n \<and> n \<le> 70 then n - 55
      else 36)"

definition digits_value :: "nat \<Rightarrow> string \<Rightarrow> int option" where
  "digits_value radix s =
     (let ds = takeWhile (\<lambda>c. digit_value c < radix) s in
      if ds = [] then None
      else Some (foldl (\<lambda>acc c. acc * int radix + int (digit_value c)) 0 ds))"

definition parse_unsigned :: "string \<Rightarrow> int option" where
  "parse_unsigned s =
     (if ci_prefix ''0x'' s then digits_value 16 (drop 2 s) else digits_value 10 s)"

definition parseInt :: "string \<Rightarrow> int option" where
  "parseInt s =
     (case dropWhile is_space s of
        [] \<Rightarrow> None
      | c # cs \<Rightarrow>
          if c = CHR ''-'' then map_option uminus (parse_unsigned cs)
          else if c = CHR ''+'' then parse_unsigned cs
          else parse_unsigned (c # cs))"

section \<open>The Telegram notifier\<close>

text \<open>The bot token and the chat id come from the environment; a variable that is not
  set, or set to the empty string, leaves the placeholder.\<close>

record config =
  env_TELEGRAM_BOT_TOKEN :: "string option"
  env_TELEGRAM_CHAT_ID :: "string option"

definition or_default :: "string option \<Rightarrow> string \<Rightarrow> string" where
  "or_default v d = (case v of None \<Rightarrow> d | Some s \<Rightarrow> if s = [] then d else s)"

definition TELEGRAM_BOT_TOKEN :: "config \<Rightarrow> string" where
  "TELEGRAM_BOT_TOKEN cfg = or_default (env_TELEGRAM_BOT_TOKEN cfg) ''YOUR_BOT_TOKEN_HERE''"

definition TELEGRAM_CHAT_ID :: "config \<Rightarrow> string" where
  "TELEGRAM_CHAT_ID cfg = or_default (env_TELEGRAM_CHAT_ID cfg) ''YOUR_CHAT_ID_HERE''"

text \<open>An exception object, as far as the \<open>catch\<close> block reads it.\<close>

record js_error =
  err_name :: string
  err_code :: "string option"
  err_message :: string

text \<open>
  What one pass through the \<open>try\<close> block meets: \<open>fetch\<close> and \<open>response.json()\<close>
  give an object whose \<open>ok\<close> is truthy or not, with or without a \<open>description\<close>, or one
  of them throws.
\<close>

datatype attempt_outcome = Responded bool "string option" | Threw js_error

text \<open>What the notifier does to the outside: a request (with the number of the
  attempt) and a pause (in milliseconds).\<close>

datatype event = Fetch nat | Sleep nat

text \<open>The object the notifier returns. The source builds it with one, two or three
  fields; \<open>None\<close> is a field that the object does not have.\<close>

record telegram_result =
  success :: bool
  error :: "string option"
  isNetworkError :: "bool option"

definition isNetworkError_of :: "js_error \<Rightarrow> bool" where
  "isNetworkError_of e =
     (err_name e = ''TypeError'' \<or> err_name e = ''AbortError'' \<or> err_code e = Some ''ENOTFOUND''
      \<or> err_code e = Some ''ECONNREFUSED'' \<or> err_code e = Some ''ETIMEDOUT'')"

function show_nat :: "nat \<Rightarrow> string" where
  "show_nat n =
     (if n < 10 then [char_of (48 + n)] else show_nat (n div 10) @ [char_of (48 + n mod 10)])"
  by pat_completeness auto
termination
  by (relation "measure id") auto

text \<open>The loop \<open>for (let attempt = 1; attempt <= retries; attempt++)\<close> of
  \<open>sendToTelegram\<close>, from \<open>attempt\<close> on, with the result returned and the events in
  order. \<open>net\<close> gives the outcome of each attempt.\<close>

function send_attempts ::
  "(nat \<Rightarrow> attempt_outcome) \<Rightarrow> nat \<Rightarrow> nat \<Rightarrow> telegram_result \<times> event list" where
  "send_attempts net retries attempt =
     (if attempt \<le> retries then
        (case net attempt of
           Responded ok description \<Rightarrow>
             (if ok then (\<lparr>success = True, error = None, isNetworkError = None\<rparr>, [Fetch attempt])
              else (\<lparr>success = False, error = description, isNetworkError = None\<rparr>,
                    [Fetch attempt]))
         | Threw e \<Rightarrow>
             (if isNetworkError_of e \<and> attempt < retries then
                (let delay = 2 ^ (attempt - 1) * 1000;
                     (r, evs) = send_attempts net retries (attempt + 1)
                 in (r, Fetch attempt # Sleep delay # evs))
              else if attempt = retries then
                (\<lparr>success = False,
                  error = Some (''Network error after '' @ show_nat retries @ '' attempts: ''
                                @ err_message e),
                  isNetworkError = Some True\<rparr>, [Fetch attempt])
              else
                (let (r, evs) = send_attempts net retries (attempt + 1)
                 in (r, Fetch attempt # evs))))
      else (\<lparr>success = False, error = Some ''Unknown error'', isNetworkError = None\<rparr>, []))"
  by pat_completeness auto
termination
  by (relation "measure (\<lambda>(net, retries, attempt). Suc retries - attempt)") auto

text \<open>\<open>sendToTelegram(messageData, retries = 3)\<close>. The outcome of an attempt may
  depend on the message that is sent. The text of the notification, which the source
  builds before the loop from the fields of the record with \<open>escapeMarkdown\<close>, has no
  part in what follows and is left out.\<close>

definition sendToTelegram ::
  "(message \<Rightarrow> nat \<Rightarrow> attempt_outcome) \<Rightarrow> message \<Rightarrow> nat \<Rightarrow> telegram_result \<times> event list" where
  "sendToTelegram net messageData retries = send_attempts (net messageData) retries 1"

definition default_retries :: nat where
  "default_retries = 3"

text \<open>\<open>telegramResult.error || null\<close>, as both callers store it.\<close>

definition error_or_null :: "telegram_result \<Rightarrow> string field" where
  "error_or_null r =
     (case error r of None \<Rightarrow> Null | Some e \<Rightarrow> if e = [] then Null else Value e)"

section \<open>The request handlers\<close>

text \<open>The body of a submission: each field is absent or a string.\<close>

record contact_body =
  body_name :: "string option"
  body_email :: "string option"
  body_subject :: "string option"
  body_message :: "string option"

text \<open>What a handler meets outside the request: the configuration, the clock
  (\<open>Date.now()\<close> and \<open>new Date().toISOString()\<close>), the address of the client, the
  outcome of each delivery attempt, and the outcome of each write to the file that the
  handler makes, the first, the second.\<close>

record world =
  cfg :: config
  clock_now :: int
  clock_iso :: string
  client_ip :: "string option"
  net :: "message \<Rightarrow> nat \<Rightarrow> attempt_outcome"
  writes :: "nat \<Rightarrow> write_outcome"

text \<open>The JSON bodies the handlers send.\<close>

datatype response_body =
    Failure string  \<comment> \<open>\<open>{success: false, error}\<close>\<close>
  | Accepted string  \<comment> \<open>\<open>{success: true, message}\<close>\<close>
  | Accepted_notified string bool  \<comment> \<open>\<open>{success: true, message, telegramNotified}\<close>\<close>
  | Message_list nat "message list"  \<comment> \<open>\<open>{success: true, count, messages}\<close>\<close>
  | Single_message message  \<comment> \<open>\<open>{success: true, message}\<close> with a stored record\<close>
  | Resend_result bool string  \<comment> \<open>\<open>{success, message}\<close>\<close>
  | Uncaught  \<comment> \<open>no body of the handler: an exception has left it\<close>

fun body_success :: "response_body \<Rightarrow> bool" where
  "body_success (Failure e) = False"
| "body_success (Accepted m) = True"
| "body_success (Accepted_notified m b) = True"
| "body_success (Message_list n ms) = True"
| "body_success (Single_message m) = True"
| "body_success (Resend_result b m) = b"
| "body_success Uncaught = False"

text \<open>What a handler leaves behind: the response, the file and the events of the
  notifier.\<close>

record outcome =
  status :: nat
  body :: response_body
  store :: file_state
  events :: "event list"

definition respond :: "nat \<Rightarrow> response_body \<Rightarrow> file_state \<Rightarrow> outcome" where
  "respond st b f = \<lparr>status = st, body = b, store = f, events = []\<rparr>"

text \<open>The answer of the \<open>catch\<close> block of the submission handler.\<close>

definition server_error :: string where
  "server_error = ''An error occurred. Please try again.''"

text \<open>
  The delete and resend handlers have no \<open>catch\<close>: an exception of a write leaves the
  handler and the framework deals with it. The model records the 500 of the framework's
  error handler with the body \<open>Uncaught\<close>. (For the asynchronous resend handler the
  framework may send no answer at all; no property below rests on this path.)
\<close>

definition uncaught :: "file_state \<Rightarrow> event list \<Rightarrow> outcome" where
  "uncaught f evs = \<lparr>status = 500, body = Uncaught, store = f, events = evs\<rparr>"

definition thank_you :: string where
  "thank_you = ''Thank you! Your message has been received.''"

definition configured :: "config \<Rightarrow> bool" where
  "configured c =
     (TELEGRAM_BOT_TOKEN c \<noteq> ''YOUR_BOT_TOKEN_HERE'' \<and> TELEGRAM_CHAT_ID c \<noteq> ''YOUR_CHAT_ID_HERE'')"

text \<open>The record the submission handler builds from the sanitized fields.\<close>

definition newMessage :: "world \<Rightarrow> string \<Rightarrow> string \<Rightarrow> string \<Rightarrow> string \<Rightarrow> message" where
  "newMessage w name email subject message =
     \<lparr>msg_id = clock_now w, msg_name = name, msg_email = email,
      msg_subject = (if subject = [] then ''(No subject)'' else subject),
      msg_message = message, msg_timestamp = clock_iso w, msg_ip = client_ip w,
      msg_read = False, telegramSent = False, telegramError = Absent,
      telegramRetryAt = Absent\<rparr>"

text \<open>The update of the delivery status after the notifier has returned: the file is
  read again, the first record with the id of the new message is changed and the file
  is written; \<open>wo\<close> is the outcome of that write.\<close>

definition update_status ::
  "write_outcome \<Rightarrow> file_state \<Rightarrow> int \<Rightarrow> telegram_result \<Rightarrow> file_state + file_state" where
  "update_status wo f i r =
     (let updatedMessages = readMessages f in
      case findIndex (\<lambda>m. msg_id m = i) updatedMessages of
        None \<Rightarrow> Inr f
      | Some msgIndex \<Rightarrow>
          saveMessages wo f (updatedMessages[msgIndex :=
            (updatedMessages ! msgIndex)\<lparr>telegramSent := success r,
                                          telegramError := error_or_null r\<rparr>]))"

text \<open>\<open>POST /api/contact\<close>. The whole handler runs in a \<open>try\<close>; its \<open>catch\<close>
  answers 500. What can throw there is a write: the append of the new record, the first
  write, and the update of its delivery status, the second.\<close>

definition contact_handler :: "world \<Rightarrow> file_state \<Rightarrow> contact_body \<Rightarrow> outcome" where
  "contact_handler w f req =
     (let name = sanitizeInput (body_name req);
          email = sanitizeInput (body_email req);
          subject = sanitizeInput (body_subject req);
          message = sanitizeInput (body_message req)
      in case validation name email message of
           Some reason \<Rightarrow> respond 400 (Failure reason) f
         | None \<Rightarrow>
             if isSpam \<lparr>sd_name = name, sd_subject = subject, sd_message = message\<rparr>
             then respond 201 (Accepted thank_you) f
             else
               (let new = newMessage w name email subject message in
                case saveMessages (writes w 1) f (readMessages f @ [new]) of
                  Inl f' \<Rightarrow> respond 500 (Failure server_error) f'
                | Inr f1 \<Rightarrow>
                    if configured (cfg w) then
                      (let (telegramResult, evs) = sendToTelegram (net w) new default_retries in
                       case update_status (writes w 2) f1 (msg_id new) telegramResult of
                         Inl f' \<Rightarrow>
                           \<lparr>status = 500, body = Failure server_error, store = f',
                            events = evs\<rparr>
                       | Inr f2 \<Rightarrow>
                           \<lparr>status = 201,
                            body = Accepted_notified thank_you (success telegramResult),
                            store = f2, events = evs\<rparr>)
                    else
                      (let telegramResult = \<lparr>success = False, error = Some ''Not configured'',
                                             isNetworkError = None\<rparr>
                       in \<lparr>status = 201,
                           body = Accepted_notified thank_you (success telegramResult),
                           store = f1, events = []\<rparr>)))"

text \<open>\<open>GET /api/messages\<close>.\<close>

definition list_handler :: "file_state \<Rightarrow> outcome" where
  "list_handler f =
     (let messages = readMessages f in
      respond 200 (Message_list (length messages) (rev messages)) f)"

text \<open>\<open>GET /api/messages/:id\<close>.\<close>

definition get_handler :: "file_state \<Rightarrow> string \<Rightarrow> outcome" where
  "get_handler f param =
     (let messages = readMessages f in
      case find (\<lambda>m. Some (msg_id m) = parseInt param) messages of
        None \<Rightarrow> respond 404 (Failure ''Message not found'') f
      | Some message \<Rightarrow> respond 200 (Single_message message) f)"

text \<open>\<open>DELETE /api/messages/:id\<close>.\<close>

definition delete_handler :: "world \<Rightarrow> file_state \<Rightarrow> string \<Rightarrow> outcome" where
  "delete_handler w f param =
     (let messages = readMessages f in
      case findIndex (\<lambda>m. Some (msg_id m) = parseInt param) messages of
        None \<Rightarrow> respond 404 (Failure ''Message not found'') f
      | Some index \<Rightarrow>
          (case saveMessages (writes w 1) f (take index messages @ drop (Suc index) messages) of
             Inl f' \<Rightarrow> uncaught f' []
           | Inr f1 \<Rightarrow> respond 200 (Accepted ''Message deleted'') f1))"

text \<open>\<open>POST /api/messages/:id/resend-telegram\<close>.\<close>

definition resend_handler :: "world \<Rightarrow> file_state \<Rightarrow> string \<Rightarrow> outcome" where
  "resend_handler w f param =
     (let messages = readMessages f in
      case findIndex (\<lambda>m. Some (msg_id m) = parseInt param) messages of
        None \<Rightarrow> respond 404 (Failure ''Message not found'') f
      | Some msgIndex \<Rightarrow>
          if TELEGRAM_BOT_TOKEN (cfg w) = ''YOUR_BOT_TOKEN_HERE''
             \<or> TELEGRAM_CHAT_ID (cfg w) = ''YOUR_CHAT_ID_HERE''
          then respond 400 (Failure ''Telegram bot not configured'') f
          else
            (let (r, evs) = sendToTelegram (net w) (messages ! msgIndex) default_retries;
                 updated = messages[msgIndex :=
                   (messages ! msgIndex)\<lparr>telegramSent := success r,
                                          telegramError := error_or_null r,
                                          telegramRetryAt := Value (clock_iso w)\<rparr>]
             in case saveMessages (writes w 1) f updated of
                  Inl f' \<Rightarrow> uncaught f' evs
                | Inr f1 \<Rightarrow>
                    \<lparr>status = 200,
                     body = Resend_result (success r)
                       (if success r then ''Message sent to Telegram successfully''
                        else ''Failed to send: ''
                             @ (case error r of None \<Rightarrow> ''undefined'' | Some e \<Rightarrow> e)),
                     store = f1, events = evs\<rparr>))"

section \<open>Vocabulary of the properties\<close>

text \<open>A submission passes validation when none of the checks of the handler rejects its
  sanitized fields; it is classified as spam when \<open>isSpam\<close> holds of them.\<close>

definition passes_validation :: "contact_body \<Rightarrow> bool" where
  "passes_validation req =
     (validation (sanitizeInput (body_name req)) (sanitizeInput (body_email req))
        (sanitizeInput (body_message req)) = None)"

definition spam_submission :: "contact_body \<Rightarrow> bool" where
  "spam_submission req =
     isSpam \<lparr>sd_name = sanitizeInput (body_name req),
             sd_subject = sanitizeInput (body_subject req),
             sd_message = sanitizeInput (body_message req)\<rparr>"

text \<open>A string with no white space at either end.\<close>

definition trimmed :: "string \<Rightarrow> bool" where
  "trimmed s = (s = [] \<or> (\<not> is_space (hd s) \<and> \<not> is_space (last s)))"

text \<open>The record that the handler appends for a submission.\<close>

definition submitted :: "world \<Rightarrow> contact_body \<Rightarrow> message" where
  "submitted w req =
     newMessage w (sanitizeInput (body_name req)) (sanitizeInput (body_email req))
       (sanitizeInput (body_subject req)) (sanitizeInput (body_message req))"

text \<open>Two records that differ at most in the delivery status.\<close>

definition same_but_status :: "message \<Rightarrow> message \<Rightarrow> bool" where
  "same_but_status m m' =
     (m'\<lparr>telegramSent := telegramSent m, telegramError := telegramError m\<rparr> = m)"

text \<open>The bot token or the chat id still holds its placeholder.\<close>

definition unconfigured :: "config \<Rightarrow> bool" where
  "unconfigured c =
     (TELEGRAM_BOT_TOKEN c = ''YOUR_BOT_TOKEN_HERE''
      \<or> TELEGRAM_CHAT_ID c = ''YOUR_CHAT_ID_HERE'')"

subsection \<open>Inputs for the examples\<close>

definition network_failure :: js_error where
  "network_failure =
     \<lparr>err_name = ''TypeError'', err_code = None, err_message = ''fetch failed''\<rparr>"

text \<open>What \<open>response.json()\<close> throws when the body of the answer is no JSON, as the
  error page of a gateway is.\<close>

definition parse_failure :: js_error where
  "parse_failure =
     \<lparr>err_name = ''SyntaxError'', err_code = None, err_message = ''Unexpected token <''\<rparr>"

definition example_config :: config where
  "example_config =
     \<lparr>env_TELEGRAM_BOT_TOKEN = Some ''123456:secret'', env_TELEGRAM_CHAT_ID = Some ''42''\<rparr>"

text \<open>A world whose first delivery attempt fails on the network and whose second one
  succeeds, one where every attempt fails, one with no bot token, and one where the
  second write of the handler throws (the disk is full, or the file has been locked);
  elsewhere every write succeeds.\<close>

definition example_world :: world where
  "example_world =
     \<lparr>cfg = example_config,
      clock_now = 1700000000000, clock_iso = ''2023-11-14T22:13:20.000Z'',
      client_ip = Some ''127.0.0.1'',
      net = (\<lambda>m n. if n = 1 then Threw network_failure else Responded True None),
      writes = (\<lambda>k. Written)\<rparr>"

definition failing_world :: world where
  "failing_world = example_world\<lparr>net := (\<lambda>m n. Threw network_failure)\<rparr>"

definition unconfigured_world :: world where
  "unconfigured_world =
     example_world\<lparr>cfg := \<lparr>env_TELEGRAM_BOT_TOKEN = None, env_TELEGRAM_CHAT_ID = Some ''42''\<rparr>\<rparr>"

definition update_fails_world :: world where
  "update_fails_world =
     example_world\<lparr>writes := (\<lambda>k. if k = 2 then Throws_intact else Written)\<rparr>"

definition valid_request :: contact_body where
  "valid_request =
     \<lparr>body_name = Some ''Jane'', body_email = Some ''jane@test.com'', body_subject = None,
      body_message = Some ''Hello there''\<rparr>"

definition spam_request :: contact_body where
  "spam_request = valid_request\<lparr>body_message := Some ''Please buy now''\<rparr>"

definition two_url_request :: contact_body where
  "two_url_request =
     valid_request\<lparr>body_message := Some ''see http://a.com and http://b.com''\<rparr>"

definition short_name_request :: contact_body where
  "short_name_request = valid_request\<lparr>body_name := Some ''J''\<rparr>"

definition short_message_request :: contact_body where
  "short_message_request = valid_request\<lparr>body_message := Some ''Hi there!''\<rparr>"

definition stored_example :: message where
  "stored_example =
     \<lparr>msg_id = 1700000000000, msg_name = ''Jane'', msg_email = ''jane@test.com'',
      msg_subject = ''(No subject)'', msg_message = ''Hello there'',
      msg_timestamp = ''2023-11-14T22:13:20.000Z'', msg_ip = Some ''127.0.0.1'',
      msg_read = False, telegramSent = False, telegramError = Absent,
      telegramRetryAt = Absent\<rparr>"

definition example_store :: file_state where
  "example_store = Stored [stored_example]"

section \<open>Properties of the store and of the handlers\<close>

subsection \<open>Auxiliary facts\<close>

lemma findIndex_None_iff: "findIndex P xs = None \<longleftrightarrow> (\<forall>x \<in> set xs. \<not> P x)"
  by (induction xs) (auto split: option.splits)

lemma findIndex_Some_less: "findIndex P xs = Some i \<Longrightarrow> i < length xs"
  by (induction xs arbitrary: i) (auto split: if_splits option.splits)

lemma same_but_status_refl: "same_but_status m m"
  by (simp add: same_but_status_def)

lemma list_all2_same_refl: "list_all2 same_but_status xs xs"
  by (simp add: list_all2_refl same_but_status_refl)

lemma update_status_keeps_records:
  assumes "update_status wo (Stored xs) i r = Inr f2"
  shows "list_all2 same_but_status xs (readMessages f2)"
proof (cases "findIndex (\<lambda>m. msg_id m = i) xs")
  case None
  with assms show ?thesis
    by (auto simp: update_status_def readMessages_def list_all2_same_refl)
next
  case (Some k)
  from Some have k: "k < length xs" by (rule findIndex_Some_less)
  have "list_all2 same_but_status xs
          (xs[k := (xs ! k)\<lparr>telegramSent := success r, telegramError := error_or_null r\<rparr>])"
    unfolding list_all2_conv_all_nth using k
    by (auto simp: nth_list_update same_but_status_def)
  with Some assms show ?thesis
    by (auto simp: update_status_def readMessages_def saveMessages_def
        split: write_outcome.splits)
qed

lemma update_status_Written:
  "\<exists>f2. update_status Written f i r = Inr f2"
  by (simp add: update_status_def saveMessages_def Let_def split: option.splits)

lemma appended_record_is_found:
  "findIndex (\<lambda>m. msg_id m = msg_id new) (xs @ [new]) \<noteq> None"
  by (simp add: findIndex_None_iff)

lemma update_status_throws:
  assumes "wo \<noteq> Written"
  shows "update_status wo (Stored (xs @ [new])) (msg_id new) r
         = Inl (if wo = Throws_intact then Stored (xs @ [new]) else Unparsable)"
proof -
  from appended_record_is_found [of new xs]
  obtain k where "findIndex (\<lambda>m. msg_id m = msg_id new) (xs @ [new]) = Some k" by auto
  with assms show ?thesis
    by (cases wo) (simp_all add: update_status_def saveMessages_def readMessages_def)
qed

lemma rejected_submission:
  assumes "validation (sanitizeInput (body_name req)) (sanitizeInput (body_email req))
             (sanitizeInput (body_message req)) = Some reason"
  shows "contact_handler w f req = respond 400 (Failure reason) f"
  using assms by (simp add: contact_handler_def Let_def)

lemma accepted_body_is_no_failure:
  assumes "validation (sanitizeInput (body_name req)) (sanitizeInput (body_email req))
             (sanitizeInput (body_message req)) = None"
    and "body (contact_handler w f req) = Failure reason"
  shows "reason = server_error"
  using assms
  by (auto simp: contact_handler_def Let_def respond_def
      split: if_splits sum.splits prod.splits)

lemma reasons_distinct:
  "name_error \<noteq> required_error" "message_error \<noteq> required_error"
  "message_error \<noteq> name_error" "email_error \<noteq> name_error" "email_error \<noteq> message_error"
  "server_error \<noteq> name_error" "server_error \<noteq> message_error"
  by (simp_all add: name_error_def required_error_def message_error_def email_error_def
      server_error_def)

text \<open>\<open>canonicalize\<close> on the bits of a character: the letters it changes have bits
  5 and 6 set, and it clears bit 5. The equation serves the evaluation of the examples.\<close>

lemma canonicalize_Char [code]:
  "canonicalize (Char b0 b1 b2 b3 b4 b5 b6 b7) =
     (if b5 \<and> b6 \<and> (if b7 then \<not> (b0 \<and> b1 \<and> b2 \<and> b4)
                      else (b0 \<or> b1 \<or> b2 \<or> b3 \<or> b4) \<and> \<not> (b3 \<and> b4 \<and> (b2 \<or> (b0 \<and> b1))))
      then Char b0 b1 b2 b3 b4 False b6 b7
      else Char b0 b1 b2 b3 b4 b5 b6 b7)"
  by (cases b0; cases b1; cases b2; cases b3; cases b4; cases b5; cases b6; cases b7;
      simp add: canonicalize_def code_def char_of_def Let_def bit_Suc_0_iff)

text \<open>The example requests, evaluated.\<close>

lemma valid_request_passes: "passes_validation valid_request"
  by code_simp

lemma valid_request_not_spam: "\<not> spam_submission valid_request"
  by code_simp

lemma spam_request_passes: "passes_validation spam_request"
  by code_simp

lemma spam_request_spam: "spam_submission spam_request"
  by code_simp

lemma short_name_fields:
  "sanitizeInput (body_name short_name_request) = ''J''"
  "sanitizeInput (body_email short_name_request) \<noteq> []"
  "sanitizeInput (body_message short_name_request) \<noteq> []"
  by code_simp+

lemma short_message_fields:
  "sanitizeInput (body_name short_message_request) = ''Jane''"
  "sanitizeInput (body_email short_message_request) \<noteq> []"
  "sanitizeInput (body_message short_message_request) = ''Hi there!''"
  by code_simp+

lemma short_name_message: "sanitizeInput (body_message short_name_request) = ''Hello there''"
  by code_simp

text \<open>The sanitizer and the check of the address on a few inputs.\<close>

lemma sanitizeInput_examples:
  "sanitizeInput (Some ''<script>alert(1)</script>'') = ''alert1''"
  "sanitizeInput (Some ''onclick=evil()'') = ''evil''"
  "sanitizeInput (Some ''  a <b>c  '') = ''a c''"
  "sanitizeInput (Some ''x < y'') = ''x  y''"
  "sanitizeInput (Some ''JavaScript:run DATA:text'') = ''run text''"
  by code_simp+

lemma isValidEmail_examples:
  "isValidEmail ''a@b.co''" "\<not> isValidEmail ''not-an-email''" "\<not> isValidEmail ''a@b.c''"
  "\<not> isValidEmail ''a@b@c.co''" "isValidEmail ''first.last+tag@mail.example.org''"
  by code_simp+

subsection \<open>The notifier\<close>

text \<open>The loop with three attempts, one attempt at a time.\<close>

declare send_attempts.simps [simp del]

declare show_nat.simps [simp del]

lemma show_nat_3: "show_nat 3 = ''3''"
  by code_simp

lemma send_attempts_3:
  "send_attempts nw 3 3 =
     (case nw 3 of
        Responded ok d \<Rightarrow>
          (if ok then (\<lparr>success = True, error = None, isNetworkError = None\<rparr>, [Fetch 3])
           else (\<lparr>success = False, error = d, isNetworkError = None\<rparr>, [Fetch 3]))
      | Threw e \<Rightarrow>
          (\<lparr>success = False,
            error = Some (''Network error after 3 attempts: '' @ err_message e),
            isNetworkError = Some True\<rparr>, [Fetch 3]))"
  by (subst send_attempts.simps) (simp add: show_nat_3 split: attempt_outcome.splits)

lemma send_attempts_2:
  "send_attempts nw 3 2 =
     (case nw 2 of
        Responded ok d \<Rightarrow>
          (if ok then (\<lparr>success = True, error = None, isNetworkError = None\<rparr>, [Fetch 2])
           else (\<lparr>success = False, error = d, isNetworkError = None\<rparr>, [Fetch 2]))
      | Threw e \<Rightarrow>
          (fst (send_attempts nw 3 3),
           Fetch 2 # (if isNetworkError_of e then [Sleep 2000] else [])
           @ snd (send_attempts nw 3 3)))"
  by (subst send_attempts.simps) (simp split: attempt_outcome.splits prod.splits)

lemma send_attempts_1:
  "send_attempts nw 3 (Suc 0) =
     (case nw (Suc 0) of
        Responded ok d \<Rightarrow>
          (if ok then (\<lparr>success = True, error = None, isNetworkError = None\<rparr>, [Fetch 1])
           else (\<lparr>success = False, error = d, isNetworkError = None\<rparr>, [Fetch 1]))
      | Threw e \<Rightarrow>
          (fst (send_attempts nw 3 2),
           Fetch 1 # (if isNetworkError_of e then [Sleep 1000] else [])
           @ snd (send_attempts nw 3 2)))"
  by (subst send_attempts.simps) (simp add: numeral_2_eq_2 split: attempt_outcome.splits prod.splits)

text \<open>What holds of the retry policy: a rejection by the remote service ends the
  delivery at once, network failures are retried after 1 and 2 seconds, and no delivery
  makes more than three requests.\<close>

lemma rejection_is_not_retried:
  "nw m 1 = Responded False d \<Longrightarrow>
   sendToTelegram nw m default_retries
   = (\<lparr>success = False, error = d, isNetworkError = None\<rparr>, [Fetch 1])"
  by (simp add: sendToTelegram_def default_retries_def send_attempts_1)

lemma network_failures_back_off:
  assumes "\<And>k. nw m k = Threw e" and "isNetworkError_of e"
  shows "snd (sendToTelegram nw m default_retries)
         = [Fetch 1, Sleep 1000, Fetch 2, Sleep 2000, Fetch 3]"
  using assms
  by (simp add: sendToTelegram_def default_retries_def send_attempts_1 send_attempts_2
      send_attempts_3)

lemma every_attempt_fails:
  assumes "\<And>k. nw m k = Threw e"
  shows "fst (sendToTelegram nw m default_retries)
         = \<lparr>success = False,
            error = Some (''Network error after 3 attempts: '' @ err_message e),
            isNetworkError = Some True\<rparr>"
  using assms
  by (simp add: sendToTelegram_def default_retries_def send_attempts_1 send_attempts_2
      send_attempts_3)

lemma at_most_three_attempts:
  "length (filter (\<lambda>ev. case ev of Fetch k \<Rightarrow> True | Sleep d \<Rightarrow> False)
     (snd (sendToTelegram nw m default_retries))) \<le> 3"
  unfolding sendToTelegram_def default_retries_def
  by (cases "nw m 1"; cases "nw m 2"; cases "nw m 3")
     (auto simp: send_attempts_1 send_attempts_2 send_attempts_3)

text \<open>
  Claim C7, where it fails. The object returned after a successful delivery is
  \<open>{success: true}\<close>: it has no \<open>error\<close> and no \<open>isNetworkError\<close> field, so it is
  not of the shape \<open>{success: bool, error: string|null, isNetworkError: bool}\<close>. (In the
  example the first attempt fails on the network and the second one is answered with
  \<open>ok\<close>.)
\<close>

theorem success_object_has_one_field:
  "fst (sendToTelegram (net example_world) stored_example default_retries)
     = \<lparr>success = True, error = None, isNetworkError = None\<rparr>"
  by code_simp

text \<open>
  Claim C7, amended. For every message and every outcome of the attempts, the notifier
  returns (it is a total function: no exception reaches its caller) and its result is
  one of three objects: \<open>{success: true}\<close>, when the last request was answered with
  \<open>ok\<close>; \<open>{success: false, error: description}\<close>, when the last request was answered
  without \<open>ok\<close>, where the description of the remote service may be missing; or
  \<open>{success: false, error: 'Network error after 3 attempts: ...', isNetworkError: true}\<close>,
  when the third attempt threw. So \<open>success\<close> is always there and a truth value, and
  every failure gives \<open>success: false\<close>; \<open>error\<close> and \<open>isNetworkError\<close> are there on
  some paths only.
\<close>

theorem notifier_always_returns_a_result:
  "\<exists>r evs. sendToTelegram nw m default_retries = (r, evs)
     \<and> ((r = \<lparr>success = True, error = None, isNetworkError = None\<rparr>
          \<and> (\<exists>k d. last evs = Fetch k \<and> nw m k = Responded True d))
        \<or> (\<exists>k d. r = \<lparr>success = False, error = d, isNetworkError = None\<rparr>
              \<and> last evs = Fetch k \<and> nw m k = Responded False d)
        \<or> (\<exists>e. r = \<lparr>success = False,
                        error = Some (''Network error after 3 attempts: '' @ err_message e),
                        isNetworkError = Some True\<rparr>
              \<and> last evs = Fetch 3 \<and> nw m 3 = Threw e))"
  unfolding sendToTelegram_def default_retries_def
  by (cases "nw m 1"; cases "nw m 2"; cases "nw m 3")
     (auto simp: send_attempts_1 send_attempts_2 send_attempts_3)

theorem notifier_always_returns_a_result_witness:
  "\<exists>r evs. sendToTelegram (net failing_world) stored_example default_retries = (r, evs)
     \<and> ((r = \<lparr>success = True, error = None, isNetworkError = None\<rparr>
          \<and> (\<exists>k d. last evs = Fetch k \<and> net failing_world stored_example k = Responded True d))
        \<or> (\<exists>k d. r = \<lparr>success = False, error = d, isNetworkError = None\<rparr>
              \<and> last evs = Fetch k \<and> net failing_world stored_example k = Responded False d)
        \<or> (\<exists>e. r = \<lparr>success = False,
                        error = Some (''Network error after 3 attempts: '' @ err_message e),
                        isNetworkError = Some True\<rparr>
              \<and> last evs = Fetch 3 \<and> net failing_world stored_example 3 = Threw e))"
  by (rule notifier_always_returns_a_result)

text \<open>
  Claim C3, at the input where the source departs from it. The first attempt ends in an
  exception that is no network failure (\<open>response.json()\<close> throws a \<open>SyntaxError\<close>);
  the \<open>catch\<close> block neither pauses nor returns, the loop goes on, and the second
  request is sent at once: a retry after a failure that is not of the network class,
  with no pause before it.
\<close>

theorem non_network_exception_is_retried:
  "sendToTelegram (\<lambda>m n. if n = 1 then Threw parse_failure else Responded True None) m
     default_retries
   = (\<lparr>success = True, error = None, isNetworkError = None\<rparr>, [Fetch 1, Fetch 2])"
  by (simp add: sendToTelegram_def default_retries_def send_attempts_1 send_attempts_2
      parse_failure_def isNetworkError_of_def)

subsection \<open>The submission handler\<close>

text \<open>When every write of the handler succeeds, a submission that passes validation and
  the spam check is appended to the file and answered with 201 and \<open>success: true\<close>
  whatever the delivery attempts give; the result of the notifier shows in
  \<open>telegramNotified\<close> only. The file afterwards holds the records it held before and
  the new one, up to the delivery status.\<close>

lemma submission_answered_201_when_writes_succeed:
  assumes "passes_validation req" and "\<not> spam_submission req"
    and "writes w 1 = Written" and "configured (cfg w) \<longrightarrow> writes w 2 = Written"
  shows "status (contact_handler w f req) = 201
    \<and> body (contact_handler w f req)
        = Accepted_notified thank_you
            (configured (cfg w)
             \<and> success (fst (sendToTelegram (net w) (submitted w req) default_retries)))
    \<and> events (contact_handler w f req)
        = (if configured (cfg w)
           then snd (sendToTelegram (net w) (submitted w req) default_retries) else [])
    \<and> list_all2 same_but_status (readMessages f @ [submitted w req])
          (readMessages (store (contact_handler w f req)))"
proof (cases "configured (cfg w)")
  case True
  obtain r evs where send: "sendToTelegram (net w) (submitted w req) default_retries = (r, evs)"
    by (cases "sendToTelegram (net w) (submitted w req) default_retries")
  from True assms(4) have w2: "writes w 2 = Written" by simp
  obtain f2 where up:
    "update_status Written (Stored (readMessages f @ [submitted w req]))
       (msg_id (submitted w req)) r = Inr f2"
    using update_status_Written by blast
  then have "list_all2 same_but_status (readMessages f @ [submitted w req]) (readMessages f2)"
    by (rule update_status_keeps_records)
  with assms(1-3) True send w2 up show ?thesis
    by (simp add: contact_handler_def passes_validation_def spam_submission_def submitted_def
        Let_def saveMessages_def)
next
  case False
  with assms(1-3) show ?thesis
    by (simp add: contact_handler_def passes_validation_def spam_submission_def submitted_def
        Let_def saveMessages_def readMessages_def list_all2_same_refl)
qed

lemma failed_delivery_is_answered_201:
  "contact_handler failing_world (Stored []) valid_request
   = \<lparr>status = 201, body = Accepted_notified thank_you False,
      store = Stored [(submitted failing_world valid_request)
                \<lparr>telegramError := Value ''Network error after 3 attempts: fetch failed''\<rparr>],
      events = [Fetch 1, Sleep 1000, Fetch 2, Sleep 2000, Fetch 3]\<rparr>"
  by code_simp

text \<open>When the notifier is configured and the write of the delivery status throws, the
  same submission is answered with 500 and \<open>success: false\<close>, after the record has been
  stored and the delivery attempted.\<close>

lemma failing_update_is_answered_500:
  assumes "passes_validation req" and "\<not> spam_submission req"
    and "writes w 1 = Written" and "configured (cfg w)" and "writes w 2 \<noteq> Written"
  shows "status (contact_handler w f req) = 500
    \<and> body (contact_handler w f req) = Failure server_error
    \<and> events (contact_handler w f req)
        = snd (sendToTelegram (net w) (submitted w req) default_retries)
    \<and> store (contact_handler w f req)
        = (if writes w 2 = Throws_intact then Stored (readMessages f @ [submitted w req])
           else Unparsable)"
proof -
  obtain r evs where send: "sendToTelegram (net w) (submitted w req) default_retries = (r, evs)"
    by (cases "sendToTelegram (net w) (submitted w req) default_retries")
  have "update_status (writes w 2) (Stored (readMessages f @ [submitted w req]))
          (msg_id (submitted w req)) r
        = Inl (if writes w 2 = Throws_intact then Stored (readMessages f @ [submitted w req])
               else Unparsable)"
    using assms(5) by (rule update_status_throws)
  with assms(1-4) send show ?thesis
    by (simp add: contact_handler_def passes_validation_def spam_submission_def submitted_def
        Let_def saveMessages_def)
qed

text \<open>
  Claim C1, at the input where the source departs from it. The submission passes
  validation and the spam check, the notifier is configured, the record is written to
  the file, the delivery succeeds at the second attempt, and then the write of the
  delivery status throws. The \<open>catch\<close> of the handler answers 500 with
  \<open>success: false\<close>, while the record is in the file.
\<close>

theorem stored_submission_can_be_answered_500:
  "contact_handler update_fails_world (Stored []) valid_request
   = \<lparr>status = 500, body = Failure ''An error occurred. Please try again.'',
      store = Stored [submitted update_fails_world valid_request],
      events = [Fetch 1, Sleep 1000, Fetch 2]\<rparr>"
  by code_simp

text \<open>
  Claim C2. A submission that passes validation and is classified as spam is answered
  with 201 and \<open>success: true\<close>; the file stays as it was (nothing is appended) and the
  notifier is not called, whatever the configuration, the file and the network are.
\<close>

theorem spam_is_dropped:
  assumes "passes_validation req" and "spam_submission req"
  shows "status (contact_handler w f req) = 201
    \<and> body (contact_handler w f req) = Accepted thank_you
    \<and> body_success (body (contact_handler w f req))
    \<and> store (contact_handler w f req) = f
    \<and> events (contact_handler w f req) = []"
  using assms
  by (simp add: contact_handler_def passes_validation_def spam_submission_def respond_def
      Let_def)

theorem spam_is_dropped_witness:
  "passes_validation spam_request \<and> spam_submission spam_request
    \<and> status (contact_handler example_world example_store spam_request) = 201
    \<and> body (contact_handler example_world example_store spam_request) = Accepted thank_you
    \<and> body_success (body (contact_handler example_world example_store spam_request))
    \<and> store (contact_handler example_world example_store spam_request) = example_store
    \<and> events (contact_handler example_world example_store spam_request) = []"
  using spam_is_dropped [OF spam_request_passes spam_request_spam,
          of example_world example_store]
        spam_request_passes spam_request_spam
  by blast

text \<open>
  Claim C4. The length checks on the sanitized fields: a name of length 1 or 101 fails
  the name check and one of length 2 or 100 passes it; a message of length 9 or 1001 fails
  the message check and one of length 10 or 1000 passes it. A submission whose sanitized
  name or message fails its check is answered with 400 and the file is not written; the
  reason is that of the first check that fails, so it is the reason of the name check
  when the three required fields are there, and that of the message check when the name
  check has passed as well. A check that passes never gives its reason. (The sanitizer
  cuts a field at 1000 characters, so a sanitized message of length 1001 does not occur in
  the handler; the message check rejects it all the same.)
\<close>

theorem length_boundaries:
  fixes req :: contact_body
  defines "name \<equiv> sanitizeInput (body_name req)"
    and "email \<equiv> sanitizeInput (body_email req)"
    and "message \<equiv> sanitizeInput (body_message req)"
  shows "(length n = 1 \<or> length n = 101 \<longrightarrow> \<not> name_check n)
    \<and> (length n = 2 \<or> length n = 100 \<longrightarrow> name_check n)
    \<and> (length t = 9 \<or> length t = 1001 \<longrightarrow> \<not> message_check t)
    \<and> (length t = 10 \<or> length t = 1000 \<longrightarrow> message_check t)
    \<and> (\<not> name_check name \<or> \<not> message_check message \<longrightarrow>
          status (contact_handler w f req) = 400
          \<and> \<not> body_success (body (contact_handler w f req))
          \<and> store (contact_handler w f req) = f
          \<and> events (contact_handler w f req) = [])
    \<and> (name \<noteq> [] \<and> email \<noteq> [] \<and> message \<noteq> [] \<and> \<not> name_check name \<longrightarrow>
          body (contact_handler w f req) = Failure name_error)
    \<and> (name_check name \<and> email \<noteq> [] \<and> message \<noteq> [] \<and> \<not> message_check message \<longrightarrow>
          body (contact_handler w f req) = Failure message_error)
    \<and> (name_check name \<longrightarrow> body (contact_handler w f req) \<noteq> Failure name_error)
    \<and> (message_check message \<longrightarrow> body (contact_handler w f req) \<noteq> Failure message_error)"
proof -
  have checks: "(length n = 1 \<or> length n = 101 \<longrightarrow> \<not> name_check n)
    \<and> (length n = 2 \<or> length n = 100 \<longrightarrow> name_check n)
    \<and> (length t = 9 \<or> length t = 1001 \<longrightarrow> \<not> message_check t)
    \<and> (length t = 10 \<or> length t = 1000 \<longrightarrow> message_check t)"
    by (auto simp: name_check_def message_check_def)
  have rejected: "status (contact_handler w f req) = 400
      \<and> \<not> body_success (body (contact_handler w f req))
      \<and> store (contact_handler w f req) = f
      \<and> events (contact_handler w f req) = []"
    if "\<not> name_check name \<or> \<not> message_check message"
  proof -
    from that have "validation name email message \<noteq> None"
      by (auto simp: validation_def)
    then obtain reason where "validation name email message = Some reason"
      by (cases "validation name email message") auto
    then have "contact_handler w f req = respond 400 (Failure reason) f"
      unfolding name_def email_def message_def by (rule rejected_submission)
    then show ?thesis by (simp add: respond_def)
  qed
  have by_name: "body (contact_handler w f req) = Failure name_error"
    if "name \<noteq> [] \<and> email \<noteq> [] \<and> message \<noteq> [] \<and> \<not> name_check name"
  proof -
    from that have "validation name email message = Some name_error"
      by (simp add: validation_def)
    then have "contact_handler w f req = respond 400 (Failure name_error) f"
      unfolding name_def email_def message_def by (rule rejected_submission)
    then show ?thesis by (simp add: respond_def)
  qed
  have by_message: "body (contact_handler w f req) = Failure message_error"
    if "name_check name \<and> email \<noteq> [] \<and> message \<noteq> [] \<and> \<not> message_check message"
  proof -
    from that have "name \<noteq> []" by (auto simp: name_check_def)
    with that have "validation name email message = Some message_error"
      by (simp add: validation_def)
    then have "contact_handler w f req = respond 400 (Failure message_error) f"
      unfolding name_def email_def message_def by (rule rejected_submission)
    then show ?thesis by (simp add: respond_def)
  qed
  have name_ok: "body (contact_handler w f req) \<noteq> Failure name_error" if "name_check name"
  proof (cases "validation name email message")
    case None
    then have "validation (sanitizeInput (body_name req)) (sanitizeInput (body_email req))
                 (sanitizeInput (body_message req)) = None"
      unfolding name_def email_def message_def .
    from accepted_body_is_no_failure [OF this, of w f name_error] reasons_distinct
    show ?thesis by auto
  next
    case (Some reason)
    then have "contact_handler w f req = respond 400 (Failure reason) f"
      unfolding name_def email_def message_def by (rule rejected_submission)
    moreover from Some that have "reason \<noteq> name_error"
      using reasons_distinct by (auto simp: validation_def split: if_splits)
    ultimately show ?thesis by (simp add: respond_def)
  qed
  have message_ok: "body (contact_handler w f req) \<noteq> Failure message_error"
    if "message_check message"
  proof (cases "validation name email message")
    case None
    then have "validation (sanitizeInput (body_name req)) (sanitizeInput (body_email req))
                 (sanitizeInput (body_message req)) = None"
      unfolding name_def email_def message_def .
    from accepted_body_is_no_failure [OF this, of w f message_error] reasons_distinct
    show ?thesis by auto
  next
    case (Some reason)
    then have "contact_handler w f req = respond 400 (Failure reason) f"
      unfolding name_def email_def message_def by (rule rejected_submission)
    moreover from Some that have "reason \<noteq> message_error"
      using reasons_distinct by (auto simp: validation_def split: if_splits)
    ultimately show ?thesis by (simp add: respond_def)
  qed
  from checks rejected by_name by_message name_ok message_ok show ?thesis by blast
qed

theorem length_boundaries_witness:
  "\<not> name_check ''J'' \<and> \<not> name_check (replicate 101 (CHR ''a''))
    \<and> name_check ''Al'' \<and> name_check (replicate 100 (CHR ''a''))
    \<and> \<not> message_check ''Hi there!'' \<and> \<not> message_check (replicate 1001 (CHR ''a''))
    \<and> message_check ''Hi, there!'' \<and> message_check (replicate 1000 (CHR ''a''))
    \<and> status (contact_handler example_world example_store short_name_request) = 400
    \<and> store (contact_handler example_world example_store short_name_request) = example_store
    \<and> events (contact_handler example_world example_store short_name_request) = []
    \<and> body (contact_handler example_world example_store short_name_request) = Failure name_error
    \<and> body (contact_handler example_world example_store short_message_request)
        = Failure message_error
    \<and> store (contact_handler example_world example_store short_message_request) = example_store
    \<and> body (contact_handler example_world example_store short_message_request)
        \<noteq> Failure name_error
    \<and> body (contact_handler example_world example_store short_name_request)
        \<noteq> Failure message_error"
proof -
  note sn = length_boundaries [of "''J''" "''Hi there!''" short_name_request
              example_world example_store]
  note sm = length_boundaries [of "''Al''" "''Hi, there!''" short_message_request
              example_world example_store]
  note lg = length_boundaries [of "replicate 101 (CHR ''a'')" "replicate 1001 (CHR ''a'')"]
  note ok = length_boundaries [of "replicate 100 (CHR ''a'')" "replicate 1000 (CHR ''a'')"]
  have n1: "\<not> name_check ''J''" and m1: "\<not> message_check ''Hi there!''"
    using sn by simp_all
  have n2: "name_check ''Al''" and m2: "message_check ''Hi, there!''"
    using sm by simp_all
  have n3: "\<not> name_check (replicate 101 (CHR ''a''))"
    and m3: "\<not> message_check (replicate 1001 (CHR ''a''))"
    using lg by simp_all
  have n4: "name_check (replicate 100 (CHR ''a''))"
    and m4: "message_check (replicate 1000 (CHR ''a''))"
    using ok by simp_all
  have n5: "name_check ''Jane''"
    using length_boundaries [of "''Jane''"] by (simp add: name_check_def)
  have m5: "message_check ''Hello there''"
    by (simp add: message_check_def)
  from sn n1 short_name_fields
  have a: "status (contact_handler example_world example_store short_name_request) = 400
    \<and> store (contact_handler example_world example_store short_name_request) = example_store
    \<and> events (contact_handler example_world example_store short_name_request) = []
    \<and> body (contact_handler example_world example_store short_name_request) = Failure name_error"
    by simp
  from sm n5 m1 short_message_fields
  have b: "body (contact_handler example_world example_store short_message_request)
        = Failure message_error
    \<and> store (contact_handler example_world example_store short_message_request) = example_store
    \<and> body (contact_handler example_world example_store short_message_request)
        \<noteq> Failure name_error"
    by (simp add: reasons_distinct)
  from sn m5 short_name_message
  have c: "body (contact_handler example_world example_store short_name_request)
        \<noteq> Failure message_error"
    by simp
  from n1 n2 n3 n4 m1 m2 m3 m4 a b c show ?thesis by blast
qed

text \<open>
  Claim C8, where it fails. The bot token is not set. The submission is stored and
  answered, and nothing of what the handler leaves behind says \<open>Not configured\<close>: the
  response carries \<open>telegramNotified: false\<close> and no error, and the stored record has
  \<open>telegramSent: false\<close> and no \<open>telegramError\<close>. (The text is the \<open>error\<close> of the
  handler's initial \<open>telegramResult\<close>, of which only \<open>success\<close> is read.)
\<close>

theorem unconfigured_error_is_not_recorded:
  "contact_handler unconfigured_world (Stored []) valid_request
   = \<lparr>status = 201, body = Accepted_notified thank_you False,
      store = Stored [submitted unconfigured_world valid_request], events = []\<rparr>
   \<and> telegramSent (submitted unconfigured_world valid_request) = False
   \<and> telegramError (submitted unconfigured_world valid_request) = Absent"
  by code_simp

text \<open>
  Claim C8, amended. While the bot token or the chat id holds its placeholder, the
  submission handler never calls the notifier; a submission that reaches the notification
  step (it passes validation and the spam check and its record is written) is answered
  with 201 and \<open>telegramNotified: false\<close>, and the file holds the records it held before
  and the new record as it was built, with \<open>telegramSent: false\<close> and no
  \<open>telegramError\<close>. The resend handler never calls the notifier either: for a stored
  message it answers 400 with \<open>Telegram bot not configured\<close> and leaves the file as it
  was.
\<close>

theorem unconfigured_notifier_is_skipped:
  assumes "unconfigured (cfg w)"
  shows "events (contact_handler w f req) = []
    \<and> (passes_validation req \<and> \<not> spam_submission req \<and> writes w 1 = Written \<longrightarrow>
          contact_handler w f req
            = \<lparr>status = 201, body = Accepted_notified thank_you False,
               store = Stored (readMessages f @ [submitted w req]), events = []\<rparr>
          \<and> telegramSent (submitted w req) = False
          \<and> telegramError (submitted w req) = Absent)
    \<and> events (resend_handler w f param) = []
    \<and> (findIndex (\<lambda>m. Some (msg_id m) = parseInt param) (readMessages f) \<noteq> None \<longrightarrow>
          resend_handler w f param = respond 400 (Failure ''Telegram bot not configured'') f)"
proof -
  from assms have nc: "\<not> configured (cfg w)"
    by (auto simp: unconfigured_def configured_def)
  have e: "events (contact_handler w f req) = []"
    using nc
    by (simp add: contact_handler_def respond_def Let_def
        split: option.splits sum.splits)
  have c: "passes_validation req \<and> \<not> spam_submission req \<and> writes w 1 = Written \<longrightarrow>
          contact_handler w f req
            = \<lparr>status = 201, body = Accepted_notified thank_you False,
               store = Stored (readMessages f @ [submitted w req]), events = []\<rparr>
          \<and> telegramSent (submitted w req) = False
          \<and> telegramError (submitted w req) = Absent"
    using nc
    by (simp add: contact_handler_def passes_validation_def spam_submission_def submitted_def
        newMessage_def Let_def saveMessages_def)
  have r: "events (resend_handler w f param) = []
    \<and> (findIndex (\<lambda>m. Some (msg_id m) = parseInt param) (readMessages f) \<noteq> None \<longrightarrow>
          resend_handler w f param = respond 400 (Failure ''Telegram bot not configured'') f)"
    using assms
    by (auto simp: resend_handler_def unconfigured_def respond_def Let_def split: option.splits)
  from e c r show ?thesis by blast
qed

theorem unconfigured_notifier_is_skipped_witness:
  "unconfigured (cfg unconfigured_world)
    \<and> passes_validation valid_request \<and> \<not> spam_submission valid_request
    \<and> writes unconfigured_world 1 = Written
    \<and> events (contact_handler unconfigured_world example_store valid_request) = []
    \<and> contact_handler unconfigured_world example_store valid_request
        = \<lparr>status = 201, body = Accepted_notified thank_you False,
           store = Stored (readMessages example_store
                           @ [submitted unconfigured_world valid_request]),
           events = []\<rparr>
    \<and> telegramError (submitted unconfigured_world valid_request) = Absent
    \<and> events (resend_handler unconfigured_world example_store ''1700000000000'') = []
    \<and> resend_handler unconfigured_world example_store ''1700000000000''
        = respond 400 (Failure ''Telegram bot not configured'') example_store"
proof -
  have u: "unconfigured (cfg unconfigured_world)"
    by code_simp
  have w1: "writes unconfigured_world 1 = Written"
    by code_simp
  have found: "findIndex (\<lambda>m. Some (msg_id m) = parseInt ''1700000000000'')
                 (readMessages example_store) \<noteq> None"
    by code_simp
  from unconfigured_notifier_is_skipped [OF u, of example_store valid_request "''1700000000000''"]
    u w1 found valid_request_passes valid_request_not_spam
  show ?thesis by blast
qed

subsection \<open>Reading the file\<close>

text \<open>
  Claim C9. When the file cannot be read or its text is no JSON, \<open>readMessages\<close> gives
  the empty list, and every handler answers as it does on a file that holds the empty
  array: the list is empty, get, delete and resend find no message, and a submission is
  answered and stored as on an empty file. No handler fails.
\<close>

theorem corrupt_file_reads_as_empty:
  assumes "f = Unreadable \<or> f = Unparsable"
  shows "readMessages f = []
    \<and> list_handler f = respond 200 (Message_list 0 []) f
    \<and> get_handler f param = respond 404 (Failure ''Message not found'') f
    \<and> delete_handler w f param = respond 404 (Failure ''Message not found'') f
    \<and> resend_handler w f param = respond 404 (Failure ''Message not found'') f
    \<and> status (contact_handler w f req) = status (contact_handler w (Stored []) req)
    \<and> body (contact_handler w f req) = body (contact_handler w (Stored []) req)
    \<and> events (contact_handler w f req) = events (contact_handler w (Stored []) req)
    \<and> readMessages (store (contact_handler w f req))
        = readMessages (store (contact_handler w (Stored []) req))"
proof -
  have r: "readMessages f = []" "readMessages (Stored []) = []"
    using assms by (auto simp: readMessages_def)
  have c: "status (contact_handler w f req) = status (contact_handler w (Stored []) req)
    \<and> body (contact_handler w f req) = body (contact_handler w (Stored []) req)
    \<and> events (contact_handler w f req) = events (contact_handler w (Stored []) req)
    \<and> readMessages (store (contact_handler w f req))
        = readMessages (store (contact_handler w (Stored []) req))"
  proof (cases "validation (sanitizeInput (body_name req)) (sanitizeInput (body_email req))
                  (sanitizeInput (body_message req))")
    case (Some reason)
    then show ?thesis by (simp add: contact_handler_def respond_def r Let_def)
  next
    case None
    show ?thesis
    proof (cases "isSpam \<lparr>sd_name = sanitizeInput (body_name req),
                          sd_subject = sanitizeInput (body_subject req),
                          sd_message = sanitizeInput (body_message req)\<rparr>")
      case True
      with None show ?thesis by (simp add: contact_handler_def respond_def r Let_def)
    next
      case False
      show ?thesis
      proof (cases "writes w 1")
        case Written
        with None False show ?thesis
          by (simp add: contact_handler_def saveMessages_def r Let_def)
      next
        case Throws_intact
        with None False show ?thesis
          by (simp add: contact_handler_def saveMessages_def respond_def r Let_def)
      next
        case Throws_damaged
        with None False show ?thesis
          by (simp add: contact_handler_def saveMessages_def respond_def r Let_def)
      qed
    qed
  qed
  have h: "list_handler f = respond 200 (Message_list 0 []) f
    \<and> get_handler f param = respond 404 (Failure ''Message not found'') f
    \<and> delete_handler w f param = respond 404 (Failure ''Message not found'') f
    \<and> resend_handler w f param = respond 404 (Failure ''Message not found'') f"
    by (simp add: list_handler_def get_handler_def delete_handler_def resend_handler_def r)
  from r(1) c h show ?thesis by blast
qed

theorem corrupt_file_reads_as_empty_witness:
  "readMessages Unparsable = []
    \<and> list_handler Unparsable = respond 200 (Message_list 0 []) Unparsable
    \<and> get_handler Unreadable ''1700000000000''
        = respond 404 (Failure ''Message not found'') Unreadable
    \<and> delete_handler example_world Unparsable ''1700000000000''
        = respond 404 (Failure ''Message not found'') Unparsable
    \<and> resend_handler example_world Unparsable ''1700000000000''
        = respond 404 (Failure ''Message not found'') Unparsable
    \<and> body (contact_handler example_world Unparsable valid_request)
        = body (contact_handler example_world (Stored []) valid_request)
    \<and> readMessages (store (contact_handler example_world Unparsable valid_request))
        = readMessages (store (contact_handler example_world (Stored []) valid_request))"
proof -
  have a: "Unparsable = Unreadable \<or> Unparsable = Unparsable" by simp
  have b: "Unreadable = Unreadable \<or> Unreadable = Unparsable" by simp
  from corrupt_file_reads_as_empty [OF a, of "''1700000000000''" example_world valid_request]
       corrupt_file_reads_as_empty [OF b, of "''1700000000000''" example_world valid_request]
  show ?thesis by blast
qed

text \<open>
  Claim C10. When the parse of the id parameter (\<open>None\<close> for \<open>NaN\<close>) is the id of no
  stored message, get, delete and resend each answer 404 with \<open>Message not found\<close>;
  the file stays as it was and the notifier is not called.
\<close>

theorem unknown_id_is_not_found:
  assumes "\<forall>m \<in> set (readMessages f). Some (msg_id m) \<noteq> parseInt param"
  shows "get_handler f param = respond 404 (Failure ''Message not found'') f
    \<and> delete_handler w f param = respond 404 (Failure ''Message not found'') f
    \<and> resend_handler w f param = respond 404 (Failure ''Message not found'') f"
proof -
  from assms have "findIndex (\<lambda>m. Some (msg_id m) = parseInt param) (readMessages f) = None"
    by (simp add: findIndex_None_iff)
  moreover from assms have "find (\<lambda>m. Some (msg_id m) = parseInt param) (readMessages f) = None"
    by (simp add: find_None_iff)
  ultimately show ?thesis
    by (simp add: get_handler_def delete_handler_def resend_handler_def)
qed

theorem unknown_id_is_not_found_witness:
  "parseInt ''abc'' = None \<and> parseInt ''12'' = Some 12
    \<and> get_handler example_store ''abc'' = respond 404 (Failure ''Message not found'') example_store
    \<and> delete_handler example_world example_store ''abc''
        = respond 404 (Failure ''Message not found'') example_store
    \<and> resend_handler example_world example_store ''abc''
        = respond 404 (Failure ''Message not found'') example_store
    \<and> get_handler example_store ''12'' = respond 404 (Failure ''Message not found'') example_store
    \<and> delete_handler example_world example_store ''12''
        = respond 404 (Failure ''Message not found'') example_store
    \<and> resend_handler example_world example_store ''12''
        = respond 404 (Failure ''Message not found'') example_store"
proof -
  have p: "parseInt ''abc'' = None" "parseInt ''12'' = Some 12"
    by code_simp+
  have a: "\<forall>m \<in> set (readMessages example_store). Some (msg_id m) \<noteq> parseInt ''abc''"
    by (simp add: p example_store_def readMessages_def)
  have b: "\<forall>m \<in> set (readMessages example_store). Some (msg_id m) \<noteq> parseInt ''12''"
    by (simp add: p example_store_def readMessages_def stored_example_def)
  from unknown_id_is_not_found [OF a, of example_world]
       unknown_id_is_not_found [OF b, of example_world] p
  show ?thesis by blast
qed

subsection \<open>The sanitizer\<close>

text \<open>Every step of the sanitizer only removes characters, and a step that finds nothing
  to remove changes nothing.\<close>

lemma dropWhile_hd_id: "xs \<noteq> [] \<Longrightarrow> \<not> P (hd xs) \<Longrightarrow> dropWhile P xs = xs"
  by (cases xs) auto

lemma trim_trimmed: "trimmed s \<Longrightarrow> trim s = s"
proof (cases "s = []")
  case True
  then show ?thesis by (simp add: trim_def)
next
  case False
  assume "trimmed s"
  with False have h: "\<not> is_space (hd s)" and l: "\<not> is_space (last s)"
    by (auto simp: trimmed_def)
  from False h have 1: "dropWhile is_space s = s" by (rule dropWhile_hd_id)
  from False have "rev s \<noteq> []" and "hd (rev s) = last s" by (simp_all add: hd_rev)
  with l have 2: "dropWhile is_space (rev s) = rev s" by (simp add: dropWhile_hd_id)
  show ?thesis by (simp add: trim_def 1 2)
qed

lemma length_strip_tags: "length (strip_tags s) \<le> length s"
  by (induction s rule: strip_tags.induct) (auto simp: le_SucI)

lemma set_strip_tags: "set (strip_tags s) \<subseteq> set s"
proof (induction s rule: strip_tags.induct)
  case 1
  then show ?case by simp
next
  case (2 c cs)
  show ?case
  proof (cases "c = CHR ''<'' \<and> CHR ''>'' \<in> set cs")
    case True
    with 2 have "set (strip_tags (c # cs))
        \<subseteq> set (drop (Suc (length (takeWhile (\<lambda>d. d \<noteq> CHR ''>'') cs))) cs)"
      by simp
    also have "\<dots> \<subseteq> set cs" by (rule set_drop_subset)
    finally show ?thesis by auto
  next
    case False
    with 2 show ?thesis by auto
  qed
qed

lemma strip_tags_id: "CHR ''<'' \<notin> set s \<Longrightarrow> strip_tags s = s"
  by (induction s) auto

lemma strip_dangerous_clean: "c \<in> set (strip_dangerous s) \<Longrightarrow> \<not> dangerous c"
  by (simp add: strip_dangerous_def)

lemma strip_dangerous_id: "\<forall>c \<in> set s. \<not> dangerous c \<Longrightarrow> strip_dangerous s = s"
  by (simp add: strip_dangerous_def)

lemma length_strip_dangerous: "length (strip_dangerous s) \<le> length s"
  by (simp add: strip_dangerous_def)

lemma length_remove_ci: "length (remove_ci p s) \<le> length s"
proof (induction p s rule: remove_ci.induct)
  case (1 p)
  then show ?case by simp
next
  case (2 p c cs)
  show ?case
  proof (cases "p \<noteq> [] \<and> ci_prefix p (c # cs)")
    case True
    with 2 have "length (remove_ci p (c # cs)) \<le> length (drop (length p - 1) cs)" by simp
    then show ?thesis by simp
  next
    case False
    with 2 show ?thesis by auto
  qed
qed

lemma set_remove_ci: "set (remove_ci p s) \<subseteq> set s"
proof (induction p s rule: remove_ci.induct)
  case (1 p)
  then show ?case by simp
next
  case (2 p c cs)
  show ?case
  proof (cases "p \<noteq> [] \<and> ci_prefix p (c # cs)")
    case True
    with 2 have "set (remove_ci p (c # cs)) \<subseteq> set (drop (length p - 1) cs)" by simp
    also have "\<dots> \<subseteq> set cs" by (rule set_drop_subset)
    finally show ?thesis by auto
  next
    case False
    with 2 show ?thesis by auto
  qed
qed

lemma remove_ci_id: "\<not> occurs_ci p s \<Longrightarrow> remove_ci p s = s"
  by (induction s) auto

lemma length_remove_handlers: "length (remove_handlers s) \<le> length s"
proof (induction s rule: remove_handlers.induct)
  case 1
  then show ?case by simp
next
  case (2 c cs)
  show ?case
  proof (cases "handler_match (c # cs)")
    case None
    with 2 show ?thesis by simp
  next
    case (Some n)
    with 2 have "length (remove_handlers (c # cs)) \<le> length (drop (n - 1) cs)" by simp
    then show ?thesis by simp
  qed
qed

lemma set_remove_handlers: "set (remove_handlers s) \<subseteq> set s"
proof (induction s rule: remove_handlers.induct)
  case 1
  then show ?case by simp
next
  case (2 c cs)
  show ?case
  proof (cases "handler_match (c # cs)")
    case None
    with 2 show ?thesis by auto
  next
    case (Some n)
    with 2 have "set (remove_handlers (c # cs)) \<subseteq> set (drop (n - 1) cs)" by simp
    also have "\<dots> \<subseteq> set cs" by (rule set_drop_subset)
    finally show ?thesis by auto
  qed
qed

lemma remove_handlers_id: "\<not> occurs_handler s \<Longrightarrow> remove_handlers s = s"
  by (induction s) auto

text \<open>The pipeline of the sanitizer on a string.\<close>

lemma sanitizeInput_Some:
  "sanitizeInput (Some s) = remove_ci ''data:'' (remove_handlers (remove_ci ''javascript:''
     (strip_dangerous (strip_tags (take 1000 (trim s))))))"
  by (simp add: sanitizeInput_def trim_def strip_dangerous_def)

lemma length_sanitizeInput: "length (sanitizeInput x) \<le> 1000"
proof (cases x)
  case None
  then show ?thesis by (simp add: sanitizeInput_def)
next
  case (Some s)
  let ?a = "take 1000 (trim s)"
  let ?b = "strip_tags ?a"
  let ?c = "strip_dangerous ?b"
  let ?d = "remove_ci ''javascript:'' ?c"
  let ?e = "remove_handlers ?d"
  have "length (sanitizeInput (Some s)) \<le> length ?e"
    unfolding sanitizeInput_Some by (rule length_remove_ci)
  also have "\<dots> \<le> length ?d" by (rule length_remove_handlers)
  also have "\<dots> \<le> length ?c" by (rule length_remove_ci)
  also have "\<dots> \<le> length ?b" by (rule length_strip_dangerous)
  also have "\<dots> \<le> length ?a" by (rule length_strip_tags)
  also have "\<dots> \<le> 1000" by simp
  finally show ?thesis using Some by simp
qed

lemma sanitizeInput_clean: "c \<in> set (sanitizeInput x) \<Longrightarrow> \<not> dangerous c"
proof (cases x)
  case None
  assume "c \<in> set (sanitizeInput x)"
  with None show ?thesis by (simp add: sanitizeInput_def)
next
  case (Some s)
  let ?c = "strip_dangerous (strip_tags (take 1000 (trim s)))"
  let ?d = "remove_ci ''javascript:'' ?c"
  let ?e = "remove_handlers ?d"
  assume "c \<in> set (sanitizeInput x)"
  with Some have "c \<in> set (remove_ci ''data:'' ?e)"
    by (simp only: sanitizeInput_Some)
  then have "c \<in> set ?e" using set_remove_ci by (rule rev_subsetD)
  then have "c \<in> set ?d" using set_remove_handlers by (rule rev_subsetD)
  then have "c \<in> set ?c" using set_remove_ci by (rule rev_subsetD)
  then show ?thesis by (rule strip_dangerous_clean)
qed

lemma tagged_example: "sanitizeInput (Some ''  <b>Hello</b> there '') = ''Hello there''"
  by code_simp

text \<open>A result that has white space at an end is changed by a second call, which trims
  it: every step only removes characters.\<close>

lemma length_dropWhile_hd: "xs \<noteq> [] \<Longrightarrow> P (hd xs) \<Longrightarrow> length (dropWhile P xs) < length xs"
  by (cases xs) (simp_all add: length_dropWhile_le less_Suc_eq_le)

lemma length_rev_dropWhile: "length (dropWhile P (rev xs)) \<le> length xs"
  using length_dropWhile_le [of P "rev xs"] by simp

lemma length_trim_le: "length (trim s) \<le> length s"
proof -
  have "length (trim s) \<le> length (dropWhile is_space s)"
    unfolding trim_def by (simp add: length_rev_dropWhile)
  also have "\<dots> \<le> length s" by (rule length_dropWhile_le)
  finally show ?thesis .
qed

lemma length_trim_less: "\<not> trimmed s \<Longrightarrow> length (trim s) < length s"
proof -
  assume "\<not> trimmed s"
  then have ne: "s \<noteq> []" and sp: "is_space (hd s) \<or> is_space (last s)"
    by (auto simp: trimmed_def)
  show ?thesis
  proof (cases "is_space (hd s)")
    case True
    have "length (trim s) \<le> length (dropWhile is_space s)"
      unfolding trim_def by (simp add: length_rev_dropWhile)
    also from ne True have "\<dots> < length s" by (rule length_dropWhile_hd)
    finally show ?thesis .
  next
    case False
    with sp have l: "is_space (last s)" by simp
    from ne False have 1: "dropWhile is_space s = s" by (rule dropWhile_hd_id)
    from ne have r: "rev s \<noteq> []" and "hd (rev s) = last s" by (simp_all add: hd_rev)
    with l have "is_space (hd (rev s))" by simp
    with r have "length (dropWhile is_space (rev s)) < length (rev s)"
      by (rule length_dropWhile_hd)
    then show ?thesis by (simp add: trim_def 1)
  qed
qed

lemma untrimmed_result_is_changed:
  assumes "\<not> trimmed (sanitizeInput (Some s))"
  shows "sanitizeInput (Some (sanitizeInput (Some s))) \<noteq> sanitizeInput (Some s)"
proof -
  let ?t = "sanitizeInput (Some s)"
  let ?a = "take 1000 (trim ?t)"
  let ?b = "strip_tags ?a"
  let ?c = "strip_dangerous ?b"
  let ?d = "remove_ci ''javascript:'' ?c"
  let ?e = "remove_handlers ?d"
  have "length (sanitizeInput (Some ?t)) \<le> length ?e"
    unfolding sanitizeInput_Some [of ?t] by (rule length_remove_ci)
  also have "\<dots> \<le> length ?d" by (rule length_remove_handlers)
  also have "\<dots> \<le> length ?c" by (rule length_remove_ci)
  also have "\<dots> \<le> length ?b" by (rule length_strip_dangerous)
  also have "\<dots> \<le> length ?a" by (rule length_strip_tags)
  also have "\<dots> \<le> length (trim ?t)" by simp
  also from assms have "\<dots> < length ?t" by (rule length_trim_less)
  finally show ?thesis by auto
qed

text \<open>The sanitizer makes one pass for each pattern, so a pattern can be left in the
  result, against the comment of the source (\<open>Remove javascript: protocol\<close>). What
  follows on idempotence leaves such inputs aside.\<close>

lemma nested_pattern_survives:
  "sanitizeInput (Some ''jajavascript:vascript:'') = ''javascript:''"
  by code_simp

text \<open>
  Claim C5, where it fails. The sanitizer trims first and strips afterwards: removing
  \<open>;\<close> from \<open>a ;\<close> leaves a space at the end, which a second call trims.
\<close>

theorem sanitizeInput_is_not_idempotent:
  "sanitizeInput (Some (sanitizeInput (Some ''a ;''))) \<noteq> sanitizeInput (Some ''a ;'')"
  by code_simp

text \<open>
  Claim C5, amended. Sanitizing the result of the sanitizer again changes nothing
  whenever that result neither starts nor ends with white space and holds none of the
  patterns that the sanitizer removes (\<open>javascript:\<close>, \<open>data:\<close> and the event handlers
  \<open>on\w+=\<close>, ignoring case). (The result never holds one of the stripped characters nor
  more than 1000 characters, so the other steps of the second call find nothing to do.)
\<close>

theorem sanitizeInput_idempotent_on_clean_output:
  assumes "trimmed (sanitizeInput (Some s))"
    and "\<not> occurs_ci ''javascript:'' (sanitizeInput (Some s))"
    and "\<not> occurs_handler (sanitizeInput (Some s))"
    and "\<not> occurs_ci ''data:'' (sanitizeInput (Some s))"
  shows "sanitizeInput (Some (sanitizeInput (Some s))) = sanitizeInput (Some s)"
proof -
  let ?t = "sanitizeInput (Some s)"
  have 1: "trim ?t = ?t" using assms(1) by (rule trim_trimmed)
  have 2: "take 1000 ?t = ?t" using length_sanitizeInput [of "Some s"] by simp
  have clean: "\<forall>c \<in> set ?t. \<not> dangerous c" using sanitizeInput_clean by blast
  have "\<not> dangerous (CHR ''<'') \<Longrightarrow> False" by (simp add: dangerous_def)
  with clean have "CHR ''<'' \<notin> set ?t" by blast
  then have 3: "strip_tags ?t = ?t" by (rule strip_tags_id)
  have 4: "strip_dangerous ?t = ?t" using clean by (rule strip_dangerous_id)
  have 5: "remove_ci ''javascript:'' ?t = ?t" using assms(2) by (rule remove_ci_id)
  have 6: "remove_handlers ?t = ?t" using assms(3) by (rule remove_handlers_id)
  have 7: "remove_ci ''data:'' ?t = ?t" using assms(4) by (rule remove_ci_id)
  have "sanitizeInput (Some ?t) = remove_ci ''data:'' (remove_handlers (remove_ci ''javascript:''
     (strip_dangerous (strip_tags (take 1000 (trim ?t))))))"
    by (rule sanitizeInput_Some)
  also have "\<dots> = ?t" by (simp only: 1 2 3 4 5 6 7)
  finally show ?thesis .
qed

theorem sanitizeInput_idempotent_on_clean_output_witness:
  "trimmed (sanitizeInput (Some ''  <b>Hello</b> there ''))
   \<and> \<not> occurs_ci ''javascript:'' (sanitizeInput (Some ''  <b>Hello</b> there ''))
   \<and> \<not> occurs_handler (sanitizeInput (Some ''  <b>Hello</b> there ''))
   \<and> \<not> occurs_ci ''data:'' (sanitizeInput (Some ''  <b>Hello</b> there ''))
   \<and> sanitizeInput (Some (sanitizeInput (Some ''  <b>Hello</b> there '')))
       = sanitizeInput (Some ''  <b>Hello</b> there '')"
proof -
  have a: "trimmed (sanitizeInput (Some ''  <b>Hello</b> there ''))"
    unfolding tagged_example by code_simp
  have b: "\<not> occurs_ci ''javascript:'' (sanitizeInput (Some ''  <b>Hello</b> there ''))"
    unfolding tagged_example by code_simp
  have c: "\<not> occurs_handler (sanitizeInput (Some ''  <b>Hello</b> there ''))"
    unfolding tagged_example by code_simp
  have d: "\<not> occurs_ci ''data:'' (sanitizeInput (Some ''  <b>Hello</b> there ''))"
    unfolding tagged_example by code_simp
  from sanitizeInput_idempotent_on_clean_output [OF a b c d] a b c d show ?thesis by blast
qed

subsection \<open>Spam detection\<close>

text \<open>The three patterns at work: two scheme prefixes in a row, a character eleven
  times in a row, a keyword between word boundaries in any case; a keyword inside a
  longer word does not count.\<close>

lemma spam_examples:
  "isSpam \<lparr>sd_name = ''Al'', sd_subject = [], sd_message = ''see http://https://a.com''\<rparr>"
  "isSpam \<lparr>sd_name = ''Al'', sd_subject = [], sd_message = ''heyyyyyyyyyyy''\<rparr>"
  "isSpam \<lparr>sd_name = ''Al'', sd_subject = ''You are a WINNER'', sd_message = ''hello there''\<rparr>"
  "\<not> isSpam \<lparr>sd_name = ''Al'', sd_subject = [], sd_message = ''the winners are here''\<rparr>"
  by code_simp+

text \<open>
  Claim C6, at the input where the source departs from it. The message holds two URLs,
  and so two scheme prefixes, with other text between them; the pattern of the source
  asks for two prefixes in a row, and the submission is not classified as spam.
\<close>

theorem separate_urls_are_not_spam:
  "passes_validation two_url_request \<and> \<not> spam_submission two_url_request
    \<and> sanitizeInput (body_message two_url_request) = ''see http://a.com and http://b.com''"
  by code_simp

end
